theory Spec2Isabelle
  imports Main "HOL-Library.Word" "HOL-Library.Monad_Syntax"
begin

section \<open>KGSL sync: timelines, wait points and the fence export pipeline\<close>

text \<open>
  A shallow embedding of \<^verbatim>\<open>drivers/gpu/msm/kgsl_sync.c\<close>. Every C function of the file is
  a function that takes the kernel state and returns its result together with the new
  state. A result \<open>None\<close> is an access to memory that is not allocated (a dangling or
  null pointer dereference, a free of a dead object): the C program has no defined
  behaviour there. One such access does not end the run: a reference dropped on a fence
  that is already destroyed is recorded as a drop, so that the count of the drops shows
  the over-release, and the call goes on to its return.
\<close>

subsection \<open>Addresses and typed heaps\<close>

type_synonym addr = nat
type_synonym u32 = "32 word"

definition NULL :: addr where
  "NULL = 0"

text \<open>
  One heap per struct type. The object at address \<open>a\<close> is the entry \<open>a - 1\<close> of the
  list, \<open>None\<close> once it has been freed; an allocation takes the next address, which no
  object ever had.
\<close>

type_synonym 'a heap = "'a option list"

definition heap_get :: "'a heap \<Rightarrow> addr \<Rightarrow> 'a option" where
  "heap_get h a = (if 0 < a \<and> a \<le> length h then h ! (a - 1) else None)"

definition heap_alloc :: "'a heap \<Rightarrow> 'a \<Rightarrow> addr \<times> 'a heap" where
  "heap_alloc h v = (Suc (length h), h @ [Some v])"

definition heap_update :: "'a heap \<Rightarrow> addr \<Rightarrow> ('a \<Rightarrow> 'a) \<Rightarrow> 'a heap option" where
  "heap_update h a f =
     (case heap_get h a of None \<Rightarrow> None | Some v \<Rightarrow> Some (h[a - 1 := Some (f v)]))"

definition heap_free :: "'a heap \<Rightarrow> addr \<Rightarrow> 'a heap option" where
  "heap_free h a =
     (case heap_get h a of None \<Rightarrow> None | Some v \<Rightarrow> Some (h[a - 1 := None]))"

subsection \<open>Timestamp ordering\<close>

text \<open>
  Modelled from the spec: \<^verbatim>\<open>timestamp_cmp\<close> is declared in \<^verbatim>\<open>kgsl.h\<close>, which is not
  part of the sources at hand. Section 4.1 of the specification: the counter space is
  circular, and \<open>a\<close> is after \<open>b\<close> iff \<open>a - b\<close>, read as a signed quantity of the same
  width, is positive. The C function returns a negative, zero or positive \<^verbatim>\<open>int\<close>.
\<close>

definition timestamp_cmp :: "u32 \<Rightarrow> u32 \<Rightarrow> int" where
  "timestamp_cmp a b = (if a = b then 0 else if 0 < sint (a - b) then 1 else - 1)"

datatype cmp_result = Before | Equal | After

definition compare :: "u32 \<Rightarrow> u32 \<Rightarrow> cmp_result" where
  "compare a b =
     (if timestamp_cmp a b < 0 then Before
      else if timestamp_cmp a b = 0 then Equal else After)"

subsection \<open>The structs\<close>

text \<open>
  \<^verbatim>\<open>struct kgsl_sync_timeline\<close> and \<^verbatim>\<open>struct kgsl_sync_pt\<close> embed the framework's
  \<^verbatim>\<open>struct sync_timeline\<close> and \<^verbatim>\<open>struct sync_pt\<close> as their first member; the casts of the
  C code between the two views are the identity on addresses here, and each record holds
  the fields of both views that the file reads or writes.
\<close>

record kgsl_sync_timeline =
  last_timestamp :: u32

record kgsl_sync_pt =
  pt_parent :: addr
  pt_timestamp :: u32

record kgsl_context =
  ctx_timeline :: addr

record kgsl_fence_event_priv =
  ev_context :: addr

text \<open>
  Modelled from the spec: the Exported Fence of the synchronization framework
  (\<^verbatim>\<open>struct sync_fence\<close>), section 3: it wraps exactly one Wait Point at creation, is
  reference-counted, and is destroyed when the last reference is dropped, which also
  destroys its Wait Point.
\<close>

record sync_fence =
  fence_refs :: nat
  fence_pt :: addr

datatype fd_slot = Fd_free | Fd_reserved | Fd_file addr

text \<open>
  The resource events of a run, in order. They are ghost state: the C code does not keep
  them; they let a theorem count how often each resource was taken and released.
\<close>

datatype res_event =
    Priv_alloc addr
  | Priv_free addr
  | Pt_alloc addr
  | Pt_free addr
  | Pt_released_by_fence addr
  | Fence_ref_taken addr
  | Fence_ref_dropped addr
  | Timeline_signalled addr

record kernel =
  context_table :: "((addr \<times> u32) \<times> addr) list"
  contexts :: "kgsl_context heap"
  timelines :: "kgsl_sync_timeline heap"
  sync_pts :: "kgsl_sync_pt heap"
  fences :: "sync_fence heap"
  privs :: "kgsl_fence_event_priv heap"
  fd_table :: "fd_slot list"
  user_mem :: "(addr \<times> int) list"
  registered :: "(u32 \<times> addr) list"
  trace :: "res_event list"

text \<open>
  What the collaborators outside this file do during one call: which allocations fail,
  what the fresh memory holds, what \<^verbatim>\<open>kgsl_add_event\<close> returns. \<open>sizeof_priv\<close> is
  \<^verbatim>\<open>sizeof(struct kgsl_timestamp_event_fence)\<close>, a type declared outside this file.
  \<open>install_takes_ref\<close> is a property of the framework rather than of one call: whether
  \<^verbatim>\<open>sync_fence_install\<close> gives the descriptor table a reference of its own (as section 3
  of the specification describes the Exported Fence: shared by the pipeline and the
  descriptor table) or hands the caller's reference over to the table.
\<close>

record extern =
  sizeof_priv :: int
  install_takes_ref :: bool
  kzalloc_fails :: bool
  sync_pt_create_fails :: bool
  sync_fence_create_fails :: bool
  get_unused_fd_fails :: bool
  copy_to_user_left :: nat
  kgsl_add_event_ret :: int
  sync_timeline_create_fails :: bool
  uninit :: u32

text \<open>
  Modelled from the spec: the error kinds of section 7 under the numbers of the kernel's
  errno headers, which are not part of the sources at hand. \<open>InvalidArgument\<close> is
  \<^verbatim>\<open>EINVAL\<close>, \<open>OutOfMemory\<close> is \<^verbatim>\<open>ENOMEM\<close>, \<open>Fault\<close> is \<^verbatim>\<open>EFAULT\<close>, and a full
  descriptor table is reported as \<^verbatim>\<open>EMFILE\<close>.
\<close>

definition EINVAL :: int where "EINVAL = 22"
definition ENOMEM :: int where "ENOMEM = 12"
definition EFAULT :: int where "EFAULT = 14"
definition EMFILE :: int where "EMFILE = 24"

definition log_event :: "res_event list \<Rightarrow> kernel \<Rightarrow> kernel" where
  "log_event evs s = s\<lparr>trace := trace s @ evs\<rparr>"

subsection \<open>Wait points\<close>

text \<open>
  Modelled from the spec: \<^verbatim>\<open>sync_pt_create\<close> of the framework allocates a wait point
  bound to the timeline, or returns \<^verbatim>\<open>NULL\<close> when the allocation fails (section 4.2).
\<close>

definition sync_pt_create :: "extern \<Rightarrow> addr \<Rightarrow> kernel \<Rightarrow> addr \<times> kernel" where
  "sync_pt_create e parent s =
     (if sync_pt_create_fails e then (NULL, s)
      else let (pt, h) = heap_alloc (sync_pts s)
                           \<lparr>pt_parent = parent, pt_timestamp = uninit e\<rparr>
           in (pt, log_event [Pt_alloc pt] (s\<lparr>sync_pts := h\<rparr>)))"

text \<open>Modelled from the spec: \<^verbatim>\<open>sync_pt_free\<close> releases a wait point that no fence owns.\<close>

definition sync_pt_free :: "addr \<Rightarrow> kernel \<Rightarrow> kernel option" where
  "sync_pt_free pt s =
     do { h \<leftarrow> heap_free (sync_pts s) pt;
          Some (log_event [Pt_free pt] (s\<lparr>sync_pts := h\<rparr>)) }"

definition kgsl_sync_pt_create ::
  "extern \<Rightarrow> addr \<Rightarrow> u32 \<Rightarrow> kernel \<Rightarrow> (addr \<times> kernel) option" where
  "kgsl_sync_pt_create e timeline timestamp s =
     (let (pt, s1) = sync_pt_create e timeline s in
      if pt \<noteq> NULL then
        do { h \<leftarrow> heap_update (sync_pts s1) pt (\<lambda>kpt. kpt\<lparr>pt_timestamp := timestamp\<rparr>);
             Some (pt, s1\<lparr>sync_pts := h\<rparr>) }
      else Some (pt, s1))"

definition kgsl_sync_pt_destroy :: "addr \<Rightarrow> kernel \<Rightarrow> kernel option" where
  "kgsl_sync_pt_destroy pt s = sync_pt_free pt s"

definition kgsl_sync_pt_dup :: "extern \<Rightarrow> addr \<Rightarrow> kernel \<Rightarrow> (addr \<times> kernel) option" where
  "kgsl_sync_pt_dup e pt s =
     do { kpt \<leftarrow> heap_get (sync_pts s) pt;
          kgsl_sync_pt_create e (pt_parent kpt) (pt_timestamp kpt) s }"

definition kgsl_sync_pt_has_signaled :: "addr \<Rightarrow> kernel \<Rightarrow> (int \<times> kernel) option" where
  "kgsl_sync_pt_has_signaled pt s =
     do { kpt \<leftarrow> heap_get (sync_pts s) pt;
          ktimeline \<leftarrow> heap_get (timelines s) (pt_parent kpt);
          let ts = pt_timestamp kpt; last_ts = last_timestamp ktimeline in
          if timestamp_cmp last_ts ts \<ge> 0 then Some (1, s) else Some (0, s) }"

definition kgsl_sync_pt_compare :: "addr \<Rightarrow> addr \<Rightarrow> kernel \<Rightarrow> (int \<times> kernel) option" where
  "kgsl_sync_pt_compare a b s =
     do { kpt_a \<leftarrow> heap_get (sync_pts s) a;
          kpt_b \<leftarrow> heap_get (sync_pts s) b;
          let ts_a = pt_timestamp kpt_a; ts_b = pt_timestamp kpt_b in
          Some (timestamp_cmp ts_a ts_b, s) }"

subsection \<open>Timelines\<close>

text \<open>
  Modelled from the spec: \<^verbatim>\<open>sync_timeline_signal\<close> of the framework re-evaluates the
  wait points of the timeline and wakes their observers (section 4.3); it writes none of
  the fields this file owns.
\<close>

definition sync_timeline_signal :: "addr \<Rightarrow> kernel \<Rightarrow> kernel" where
  "sync_timeline_signal timeline s = log_event [Timeline_signalled timeline] s"

definition kgsl_sync_timeline_signal :: "addr \<Rightarrow> u32 \<Rightarrow> kernel \<Rightarrow> kernel option" where
  "kgsl_sync_timeline_signal timeline timestamp s =
     do { h \<leftarrow> heap_update (timelines s) timeline
                 (\<lambda>ktimeline. ktimeline\<lparr>last_timestamp := timestamp\<rparr>);
          Some (sync_timeline_signal timeline (s\<lparr>timelines := h\<rparr>)) }"

text \<open>
  Modelled from the spec: \<^verbatim>\<open>sync_timeline_create\<close> of the framework allocates and
  registers a timeline object of the size asked for, or returns \<^verbatim>\<open>NULL\<close> (section 4.3);
  \<^verbatim>\<open>sync_timeline_destroy\<close> tears it down.
\<close>

definition sync_timeline_create :: "extern \<Rightarrow> kernel \<Rightarrow> addr \<times> kernel" where
  "sync_timeline_create e s =
     (if sync_timeline_create_fails e then (NULL, s)
      else let (tl, h) = heap_alloc (timelines s) \<lparr>last_timestamp = uninit e\<rparr>
           in (tl, s\<lparr>timelines := h\<rparr>))"

definition sync_timeline_destroy :: "addr \<Rightarrow> kernel \<Rightarrow> kernel option" where
  "sync_timeline_destroy timeline s =
     do { h \<leftarrow> heap_free (timelines s) timeline;
          Some (s\<lparr>timelines := h\<rparr>) }"

definition kgsl_sync_timeline_create ::
  "extern \<Rightarrow> addr \<Rightarrow> kernel \<Rightarrow> (int \<times> kernel) option" where
  "kgsl_sync_timeline_create e context s =
     (let (tl, s1) = sync_timeline_create e s in
      do { h \<leftarrow> heap_update (contexts s1) context (\<lambda>c. c\<lparr>ctx_timeline := tl\<rparr>);
           let s2 = s1\<lparr>contexts := h\<rparr> in
           if tl = NULL then Some (- EINVAL, s2)
           else do { h' \<leftarrow> heap_update (timelines s2) tl
                             (\<lambda>ktimeline. ktimeline\<lparr>last_timestamp := 0\<rparr>);
                     Some (0, s2\<lparr>timelines := h'\<rparr>) } })"

definition kgsl_sync_timeline_destroy :: "addr \<Rightarrow> kernel \<Rightarrow> kernel option" where
  "kgsl_sync_timeline_destroy context s =
     do { c \<leftarrow> heap_get (contexts s) context;
          sync_timeline_destroy (ctx_timeline c) s }"

subsection \<open>The collaborators of the fence export pipeline\<close>

text \<open>
  Modelled from the spec: the device's context registry (section 6),
  \<open>find_context(owner, context_id)\<close>, a lookup that returns \<^verbatim>\<open>NULL\<close> for an unknown id.
\<close>

definition kgsl_find_context :: "addr \<Rightarrow> u32 \<Rightarrow> kernel \<Rightarrow> addr" where
  "kgsl_find_context owner context_id s =
     (case map_of (context_table s) (owner, context_id) of None \<Rightarrow> NULL | Some c \<Rightarrow> c)"

text \<open>
  Modelled from the spec: the allocation and the release of the Completion Callback
  state (section 4.4, step 2), \<^verbatim>\<open>kzalloc\<close> and \<^verbatim>\<open>kfree\<close> at the type of that state.
  The memory \<^verbatim>\<open>kzalloc\<close> returns is zeroed; \<^verbatim>\<open>kfree(NULL)\<close> does nothing.
\<close>

definition kzalloc :: "extern \<Rightarrow> kernel \<Rightarrow> addr \<times> kernel" where
  "kzalloc e s =
     (if kzalloc_fails e then (NULL, s)
      else let (p, h) = heap_alloc (privs s) \<lparr>ev_context = NULL\<rparr>
           in (p, log_event [Priv_alloc p] (s\<lparr>privs := h\<rparr>)))"

definition kfree :: "addr \<Rightarrow> kernel \<Rightarrow> kernel option" where
  "kfree p s =
     (if p = NULL then Some s
      else do { h \<leftarrow> heap_free (privs s) p;
                Some (log_event [Priv_free p] (s\<lparr>privs := h\<rparr>)) })"

text \<open>
  Modelled from the spec: the fence and descriptor framework (sections 3 and 6).
  \<open>wrap_as_fence\<close> is \<^verbatim>\<open>sync_fence_create\<close>: the new fence owns the wait point and the
  caller holds its one reference. \<^verbatim>\<open>sync_fence_put\<close> drops a reference; dropping the last
  one destroys the fence and its wait point, and a drop on a fence already destroyed is
  an over-release, recorded as one more drop. \<open>reserve_descriptor\<close> is
  \<^verbatim>\<open>get_unused_fd_flags\<close>, which takes the lowest free slot; \<open>install\<close> is
  \<^verbatim>\<open>sync_fence_install\<close>; \<^verbatim>\<open>put_unused_fd\<close> gives a slot back.
\<close>

definition sync_fence_create :: "extern \<Rightarrow> addr \<Rightarrow> kernel \<Rightarrow> (addr \<times> kernel) option" where
  "sync_fence_create e pt s =
     do { kpt \<leftarrow> heap_get (sync_pts s) pt;
          if sync_fence_create_fails e then Some (NULL, s)
          else let (fence, h) = heap_alloc (fences s) \<lparr>fence_refs = 1, fence_pt = pt\<rparr>
               in Some (fence, log_event [Fence_ref_taken fence] (s\<lparr>fences := h\<rparr>)) }"

definition sync_fence_put :: "addr \<Rightarrow> kernel \<Rightarrow> kernel option" where
  "sync_fence_put fence s =
     (case heap_get (fences s) fence of
        None \<Rightarrow> Some (log_event [Fence_ref_dropped fence] s)
      | Some f \<Rightarrow>
          if fence_refs f \<le> 1 then
            do { hf \<leftarrow> heap_free (fences s) fence;
                 hp \<leftarrow> heap_free (sync_pts s) (fence_pt f);
                 Some (log_event [Fence_ref_dropped fence, Pt_released_by_fence (fence_pt f)]
                         (s\<lparr>fences := hf, sync_pts := hp\<rparr>)) }
          else
            do { hf \<leftarrow> heap_update (fences s) fence (\<lambda>f. f\<lparr>fence_refs := fence_refs f - 1\<rparr>);
                 Some (log_event [Fence_ref_dropped fence] (s\<lparr>fences := hf\<rparr>)) })"

fun first_free :: "fd_slot list \<Rightarrow> nat" where
  "first_free [] = 0"
| "first_free (x # xs) = (if x = Fd_free then 0 else Suc (first_free xs))"

definition reserve_slot :: "fd_slot list \<Rightarrow> nat \<Rightarrow> fd_slot list" where
  "reserve_slot tbl fd =
     (if fd < length tbl then tbl[fd := Fd_reserved] else tbl @ [Fd_reserved])"

definition get_unused_fd_flags :: "extern \<Rightarrow> kernel \<Rightarrow> int \<times> kernel" where
  "get_unused_fd_flags e s =
     (if get_unused_fd_fails e then (- EMFILE, s)
      else let fd = first_free (fd_table s) in
           (int fd, s\<lparr>fd_table := reserve_slot (fd_table s) fd\<rparr>))"

definition put_unused_fd :: "int \<Rightarrow> kernel \<Rightarrow> kernel option" where
  "put_unused_fd fd s =
     (if 0 \<le> fd \<and> nat fd < length (fd_table s) \<and> fd_table s ! nat fd \<noteq> Fd_free
      then Some (s\<lparr>fd_table := (fd_table s)[nat fd := Fd_free]\<rparr>)
      else None)"

definition sync_fence_install :: "extern \<Rightarrow> addr \<Rightarrow> int \<Rightarrow> kernel \<Rightarrow> kernel option" where
  "sync_fence_install e fence fd s =
     do { f \<leftarrow> heap_get (fences s) fence;
          if 0 \<le> fd \<and> nat fd < length (fd_table s) \<and> fd_table s ! nat fd = Fd_reserved then
            let s1 = s\<lparr>fd_table := (fd_table s)[nat fd := Fd_file fence]\<rparr> in
            if install_takes_ref e then
              do { h \<leftarrow> heap_update (fences s1) fence (\<lambda>f. f\<lparr>fence_refs := Suc (fence_refs f)\<rparr>);
                   Some (log_event [Fence_ref_taken fence] (s1\<lparr>fences := h\<rparr>)) }
            else Some s1
          else None }"

text \<open>
  Modelled from the spec: \<open>copy_out\<close> (section 6) is \<^verbatim>\<open>copy_to_user\<close>, which returns the
  number of bytes it could not copy; the one field of the struct copied out is the
  descriptor. \<open>register_event\<close> is \<^verbatim>\<open>kgsl_add_event\<close>: on success the callback state is
  queued under the timestamp, to be handed to \<^verbatim>\<open>kgsl_fence_event_cb\<close> when it retires.
\<close>

definition copy_to_user :: "extern \<Rightarrow> addr \<Rightarrow> int \<Rightarrow> kernel \<Rightarrow> nat \<times> kernel" where
  "copy_to_user e data fence_fd s =
     (if copy_to_user_left e \<noteq> 0 then (copy_to_user_left e, s)
      else (0, s\<lparr>user_mem := (data, fence_fd) # user_mem s\<rparr>))"

definition kgsl_add_event ::
  "extern \<Rightarrow> addr \<Rightarrow> u32 \<Rightarrow> addr \<Rightarrow> addr \<Rightarrow> kernel \<Rightarrow> int \<times> kernel" where
  "kgsl_add_event e device timestamp priv owner s =
     (if kgsl_add_event_ret e \<noteq> 0 then (kgsl_add_event_ret e, s)
      else (0, s\<lparr>registered := registered s @ [(timestamp, priv)]\<rparr>))"

text \<open>
  Modelled from the spec: closing a Fence Descriptor (section 3). Once installed, the
  descriptor is the caller's owning reference path to the Exported Fence; closing it
  gives the slot back and drops that reference.
\<close>

definition close_descriptor :: "int \<Rightarrow> kernel \<Rightarrow> kernel option" where
  "close_descriptor fd s =
     (if 0 \<le> fd \<and> nat fd < length (fd_table s) then
        (case fd_table s ! nat fd of
           Fd_file fence \<Rightarrow>
             sync_fence_put fence (s\<lparr>fd_table := (fd_table s)[nat fd := Fd_free]\<rparr>)
         | _ \<Rightarrow> None)
      else None)"

subsection \<open>The completion callback and the fence export pipeline\<close>

definition kgsl_fence_event_cb :: "addr \<Rightarrow> addr \<Rightarrow> u32 \<Rightarrow> kernel \<Rightarrow> kernel option" where
  "kgsl_fence_event_cb device priv timestamp s =
     do { ev \<leftarrow> heap_get (privs s) priv;
          ctx \<leftarrow> heap_get (contexts s) (ev_context ev);
          s1 \<leftarrow> kgsl_sync_timeline_signal (ctx_timeline ctx) timestamp s;
          kfree priv s1 }"

text \<open>The labels of the cleanup ladder, each falling through to the next.\<close>

definition fail_pt :: "addr \<Rightarrow> int \<Rightarrow> kernel \<Rightarrow> (int \<times> kernel) option" where
  "fail_pt event ret s = do { s1 \<leftarrow> kfree event s; Some (ret, s1) }"

definition fail_fence :: "addr \<Rightarrow> int \<Rightarrow> kernel \<Rightarrow> (int \<times> kernel) option" where
  "fail_fence event ret s = fail_pt event ret s"

definition fail_fd :: "addr \<Rightarrow> addr \<Rightarrow> int \<Rightarrow> kernel \<Rightarrow> (int \<times> kernel) option" where
  "fail_fd fence event ret s =
     do { s1 \<leftarrow> sync_fence_put fence s; fail_fence event ret s1 }"

definition fail_copy_fd ::
  "addr \<Rightarrow> int \<Rightarrow> addr \<Rightarrow> int \<Rightarrow> kernel \<Rightarrow> (int \<times> kernel) option" where
  "fail_copy_fd fence fence_fd event ret s =
     do { s1 \<leftarrow> sync_fence_put fence s;
          s2 \<leftarrow> put_unused_fd fence_fd s1;
          fail_fd fence event ret s2 }"

definition fail_event ::
  "addr \<Rightarrow> int \<Rightarrow> addr \<Rightarrow> int \<Rightarrow> kernel \<Rightarrow> (int \<times> kernel) option" where
  "fail_event fence fence_fd event ret s = fail_copy_fd fence fence_fd event ret s"

definition kgsl_add_fence_event ::
  "extern \<Rightarrow> addr \<Rightarrow> u32 \<Rightarrow> u32 \<Rightarrow> addr \<Rightarrow> int \<Rightarrow> addr \<Rightarrow> kernel \<Rightarrow> (int \<times> kernel) option"
  where
  "kgsl_add_fence_event e device context_id timestamp data len owner s =
     (if len \<noteq> sizeof_priv e then Some (- EINVAL, s)
      else
        let context = kgsl_find_context owner context_id s in
        if context = NULL then Some (- EINVAL, s)
        else
          let (event, s1) = kzalloc e s in
          if event = NULL then Some (- ENOMEM, s1)
          else
            do { h \<leftarrow> heap_update (privs s1) event (\<lambda>ev. ev\<lparr>ev_context := context\<rparr>);
                 ctx \<leftarrow> heap_get (contexts s1) context;
                 (pt, s2) \<leftarrow> kgsl_sync_pt_create e (ctx_timeline ctx) timestamp
                               (s1\<lparr>privs := h\<rparr>);
                 if pt = NULL then fail_pt event (- ENOMEM) s2
                 else
                   do { (fence, s3) \<leftarrow> sync_fence_create e pt s2;
                        if fence = NULL then
                          do { s4 \<leftarrow> kgsl_sync_pt_destroy pt s3;
                               fail_fence event (- ENOMEM) s4 }
                        else
                          let (fence_fd, s4) = get_unused_fd_flags e s3 in
                          if fence_fd < 0 then fail_fd fence event (- EINVAL) s4
                          else
                            do { s5 \<leftarrow> sync_fence_install e fence fence_fd s4;
                                 let (left, s6) = copy_to_user e data fence_fd s5 in
                                 if left \<noteq> 0 then
                                   fail_copy_fd fence fence_fd event (- EFAULT) s6
                                 else
                                   let (ret, s7) =
                                         kgsl_add_event e device timestamp event owner s6 in
                                   if ret \<noteq> 0 then fail_event fence fence_fd event ret s7
                                   else Some (0, s7) } } })"

subsection \<open>Observations used by the theorems\<close>

text \<open>The value a timeline's counter holds, and the answer of the signaled query.\<close>

definition last_retired :: "kernel \<Rightarrow> addr \<Rightarrow> u32 option" where
  "last_retired s timeline = map_option last_timestamp (heap_get (timelines s) timeline)"

definition signaled :: "kernel \<Rightarrow> addr \<Rightarrow> int option" where
  "signaled s pt = map_option fst (kgsl_sync_pt_has_signaled pt s)"

text \<open>A sequence of advances of one timeline, in order.\<close>

fun signal_all :: "addr \<Rightarrow> u32 list \<Rightarrow> kernel \<Rightarrow> kernel option" where
  "signal_all timeline [] s = Some s"
| "signal_all timeline (t # ts) s =
     do { s1 \<leftarrow> kgsl_sync_timeline_signal timeline t s; signal_all timeline ts s1 }"

text \<open>
  \<open>never_decreased\<close> runs the advances and checks at each one that the counter did not
  move backward under the comparator; \<open>forward\<close> is the same check on the caller's
  timestamps alone.
\<close>

fun never_decreased :: "addr \<Rightarrow> u32 list \<Rightarrow> kernel \<Rightarrow> bool" where
  "never_decreased timeline [] s = True"
| "never_decreased timeline (t # ts) s =
     (case kgsl_sync_timeline_signal timeline t s of
        None \<Rightarrow> False
      | Some s1 \<Rightarrow>
          (case (last_retired s1 timeline, last_retired s timeline) of
             (Some new, Some old) \<Rightarrow> compare new old \<noteq> Before \<and> never_decreased timeline ts s1
           | _ \<Rightarrow> False))"

fun forward :: "u32 \<Rightarrow> u32 list \<Rightarrow> bool" where
  "forward old [] = True"
| "forward old (t # ts) = (compare t old \<noteq> Before \<and> forward t ts)"

text \<open>The resource events a call added, and their counts.\<close>

definition new_events :: "kernel \<Rightarrow> kernel \<Rightarrow> res_event list" where
  "new_events s s' = drop (length (trace s)) (trace s')"

definition pt_allocs :: "res_event list \<Rightarrow> nat" where
  "pt_allocs t = length [ev \<leftarrow> t. case ev of Pt_alloc p \<Rightarrow> True | _ \<Rightarrow> False]"

definition pt_frees :: "res_event list \<Rightarrow> nat" where
  "pt_frees t = length [ev \<leftarrow> t. case ev of Pt_free p \<Rightarrow> True | _ \<Rightarrow> False]"

definition pt_fence_releases :: "res_event list \<Rightarrow> nat" where
  "pt_fence_releases t =
     length [ev \<leftarrow> t. case ev of Pt_released_by_fence p \<Rightarrow> True | _ \<Rightarrow> False]"

definition fence_refs_taken :: "res_event list \<Rightarrow> nat" where
  "fence_refs_taken t = length [ev \<leftarrow> t. case ev of Fence_ref_taken f \<Rightarrow> True | _ \<Rightarrow> False]"

definition fence_refs_dropped :: "res_event list \<Rightarrow> nat" where
  "fence_refs_dropped t =
     length [ev \<leftarrow> t. case ev of Fence_ref_dropped f \<Rightarrow> True | _ \<Rightarrow> False]"

definition priv_allocs :: "res_event list \<Rightarrow> nat" where
  "priv_allocs t = length [ev \<leftarrow> t. case ev of Priv_alloc p \<Rightarrow> True | _ \<Rightarrow> False]"

definition priv_frees :: "res_event list \<Rightarrow> nat" where
  "priv_frees t = length [ev \<leftarrow> t. case ev of Priv_free p \<Rightarrow> True | _ \<Rightarrow> False]"

text \<open>
  The summary of one call of the pipeline: its return value, the wait points allocated,
  the wait points released (explicitly or with their fence), and the fence references
  taken and dropped.
\<close>

definition release_summary ::
  "kernel \<Rightarrow> (int \<times> kernel) option \<Rightarrow> (int \<times> nat \<times> nat \<times> nat \<times> nat) option" where
  "release_summary s r =
     map_option (\<lambda>(ret, s').
        (ret, pt_allocs (new_events s s'),
         pt_frees (new_events s s') + pt_fence_releases (new_events s s'),
         fence_refs_taken (new_events s s'), fence_refs_dropped (new_events s s'))) r"

text \<open>What the counter and the signaled query show after a sequence of advances.\<close>

definition retired_after :: "addr \<Rightarrow> u32 list \<Rightarrow> kernel \<Rightarrow> u32 option" where
  "retired_after timeline ts s =
     do { s' \<leftarrow> signal_all timeline ts s; last_retired s' timeline }"

definition signaled_after :: "addr \<Rightarrow> u32 list \<Rightarrow> addr \<Rightarrow> kernel \<Rightarrow> int option" where
  "signaled_after timeline ts pt s =
     do { s' \<leftarrow> signal_all timeline ts s; signaled s' pt }"

subsection \<open>A concrete kernel\<close>

text \<open>
  One owner (address 1) with one context, id 7, whose timeline has retired nothing yet;
  one wait point for timestamp 5 on that timeline; descriptors 0 to 2 in use. In
  \<open>all_succeed\<close> no collaborator fails.
\<close>

definition kernel0 :: kernel where
  "kernel0 =
     \<lparr>context_table = [((1, 7), 1)],
      contexts = [Some \<lparr>ctx_timeline = 1\<rparr>],
      timelines = [Some \<lparr>last_timestamp = 0\<rparr>],
      sync_pts = [Some \<lparr>pt_parent = 1, pt_timestamp = 5\<rparr>],
      fences = [], privs = [],
      fd_table = [Fd_reserved, Fd_reserved, Fd_reserved],
      user_mem = [], registered = [], trace = []\<rparr>"

definition all_succeed :: extern where
  "all_succeed =
     \<lparr>sizeof_priv = 4, install_takes_ref = True, kzalloc_fails = False,
      sync_pt_create_fails = False, sync_fence_create_fails = False,
      get_unused_fd_fails = False, copy_to_user_left = 0, kgsl_add_event_ret = 0,
      sync_timeline_create_fails = False, uninit = 0xDEADBEEF\<rparr>"

text \<open>
  The state \<open>kernel0\<close> is left in by a call for context 7 and timestamp 9 in which every
  step succeeds; that state after the caller has closed descriptor 3; and after the
  event subsystem has then run the completion callback for timestamp 9.
\<close>

definition kernel_exported :: kernel where
  "kernel_exported =
     kernel0\<lparr>sync_pts := [Some \<lparr>pt_parent = 1, pt_timestamp = 5\<rparr>,
                          Some \<lparr>pt_parent = 1, pt_timestamp = 9\<rparr>],
             fences := [Some \<lparr>fence_refs = 2, fence_pt = 2\<rparr>],
             privs := [Some \<lparr>ev_context = 1\<rparr>],
             fd_table := [Fd_reserved, Fd_reserved, Fd_reserved, Fd_file 1],
             user_mem := [(100, 3)], registered := [(9, 1)],
             trace := [Priv_alloc 1, Pt_alloc 2, Fence_ref_taken 1, Fence_ref_taken 1]\<rparr>"

definition kernel_closed :: kernel where
  "kernel_closed =
     kernel_exported\<lparr>fences := [Some \<lparr>fence_refs = 1, fence_pt = 2\<rparr>],
                     fd_table := [Fd_reserved, Fd_reserved, Fd_reserved, Fd_free],
                     trace := [Priv_alloc 1, Pt_alloc 2, Fence_ref_taken 1, Fence_ref_taken 1,
                               Fence_ref_dropped 1]\<rparr>"

definition kernel_retired :: kernel where
  "kernel_retired =
     kernel_closed\<lparr>timelines := [Some \<lparr>last_timestamp = 9\<rparr>],
                   privs := [None],
                   trace := [Priv_alloc 1, Pt_alloc 2, Fence_ref_taken 1, Fence_ref_taken 1,
                             Fence_ref_dropped 1, Timeline_signalled 1, Priv_free 1]\<rparr>"

section \<open>Properties\<close>

subsection \<open>Heap lemmas\<close>

lemma heap_update_Some:
  "heap_get h a = Some v \<Longrightarrow> heap_update h a f = Some (h[a - 1 := Some (f v)])"
  by (simp add: heap_update_def)

lemma heap_free_Some:
  "heap_get h a = Some v \<Longrightarrow> heap_free h a = Some (h[a - 1 := None])"
  by (simp add: heap_free_def)

lemma heap_get_fresh [simp]: "heap_get (h @ [x]) (Suc (length h)) = x"
  by (simp add: heap_get_def)

lemma heap_get_beyond [simp]: "heap_get h (Suc (length h)) = None"
  by (simp add: heap_get_def)

lemma heap_get_dead_tail [simp]: "heap_get (h @ [None]) = heap_get h"
  by (rule ext) (auto simp: heap_get_def nth_append less_Suc_eq_le le_Suc_eq)

lemma heap_get_append_live:
  "heap_get h a = Some v \<Longrightarrow> heap_get (h @ xs) a = Some v"
  by (auto simp: heap_get_def nth_append split: if_splits)

lemma first_free_le: "first_free tbl \<le> length tbl"
  by (induction tbl) auto

subsection \<open>The outcomes of the pipeline\<close>

text \<open>
  The pipeline run symbolically: which branch it takes, what it returns there and the
  state it leaves behind. A failure after \<^verbatim>\<open>sync_fence_install\<close> drops the fence
  reference twice. That is one drop too many when the installation took no reference of
  its own: the first drop destroys the fence and the second one is an over-release.
\<close>

lemmas pipeline_defs = kgsl_add_fence_event_def kzalloc_def kfree_def
  kgsl_sync_pt_create_def sync_pt_create_def sync_fence_create_def kgsl_sync_pt_destroy_def
  sync_pt_free_def get_unused_fd_flags_def sync_fence_install_def copy_to_user_def
  kgsl_add_event_def fail_pt_def fail_fence_def fail_fd_def fail_copy_fd_def fail_event_def
  sync_fence_put_def put_unused_fd_def log_event_def heap_alloc_def

lemmas count_defs = pt_allocs_def pt_frees_def pt_fence_releases_def fence_refs_taken_def
  fence_refs_dropped_def priv_allocs_def priv_frees_def

lemma pipeline_outcome:
  "kgsl_add_fence_event e device context_id timestamp data len owner s =
    (let cptr = kgsl_find_context owner context_id s;
         event = Suc (length (privs s)); pt = Suc (length (sync_pts s));
         fence = Suc (length (fences s)); fd = first_free (fd_table s);
         tbl = reserve_slot (fd_table s) fd
     in
     if len \<noteq> sizeof_priv e \<or> cptr = NULL then Some (- EINVAL, s)
     else if kzalloc_fails e then Some (- ENOMEM, s)
     else case heap_get (contexts s) cptr of
       None \<Rightarrow> None
     | Some ctx \<Rightarrow>
        if sync_pt_create_fails e then
          Some (- ENOMEM, s\<lparr>privs := privs s @ [None],
                  trace := trace s @ [Priv_alloc event, Priv_free event]\<rparr>)
        else if sync_fence_create_fails e then
          Some (- ENOMEM, s\<lparr>sync_pts := sync_pts s @ [None], privs := privs s @ [None],
                  trace := trace s @
                    [Priv_alloc event, Pt_alloc pt, Pt_free pt, Priv_free event]\<rparr>)
        else if get_unused_fd_fails e then
          Some (- EINVAL, s\<lparr>sync_pts := sync_pts s @ [None], fences := fences s @ [None],
                  privs := privs s @ [None],
                  trace := trace s @ [Priv_alloc event, Pt_alloc pt, Fence_ref_taken fence,
                    Fence_ref_dropped fence, Pt_released_by_fence pt, Priv_free event]\<rparr>)
        else if copy_to_user_left e \<noteq> 0 then
          Some (- EFAULT, s\<lparr>sync_pts := sync_pts s @ [None], fences := fences s @ [None],
                  privs := privs s @ [None], fd_table := tbl[fd := Fd_free],
                  trace := trace s @ [Priv_alloc event, Pt_alloc pt, Fence_ref_taken fence] @
                    (if install_takes_ref e
                     then [Fence_ref_taken fence, Fence_ref_dropped fence,
                           Fence_ref_dropped fence, Pt_released_by_fence pt]
                     else [Fence_ref_dropped fence, Pt_released_by_fence pt,
                           Fence_ref_dropped fence]) @
                    [Priv_free event]\<rparr>)
        else if kgsl_add_event_ret e \<noteq> 0 then
          Some (kgsl_add_event_ret e,
                s\<lparr>sync_pts := sync_pts s @ [None], fences := fences s @ [None],
                  privs := privs s @ [None], fd_table := tbl[fd := Fd_free],
                  user_mem := (data, int fd) # user_mem s,
                  trace := trace s @ [Priv_alloc event, Pt_alloc pt, Fence_ref_taken fence] @
                    (if install_takes_ref e
                     then [Fence_ref_taken fence, Fence_ref_dropped fence,
                           Fence_ref_dropped fence, Pt_released_by_fence pt]
                     else [Fence_ref_dropped fence, Pt_released_by_fence pt,
                           Fence_ref_dropped fence]) @
                    [Priv_free event]\<rparr>)
        else
          Some (0, s\<lparr>sync_pts := sync_pts s @
                    [Some \<lparr>pt_parent = ctx_timeline ctx, pt_timestamp = timestamp\<rparr>],
                  fences := fences s @
                    [Some \<lparr>fence_refs = (if install_takes_ref e then 2 else 1),
                           fence_pt = pt\<rparr>],
                  privs := privs s @ [Some \<lparr>ev_context = cptr\<rparr>],
                  fd_table := tbl[fd := Fd_file fence],
                  user_mem := (data, int fd) # user_mem s,
                  registered := registered s @ [(timestamp, event)],
                  trace := trace s @ [Priv_alloc event, Pt_alloc pt, Fence_ref_taken fence] @
                    (if install_takes_ref e then [Fence_ref_taken fence] else [])\<rparr>))"
proof -
  define cptr where "cptr = kgsl_find_context owner context_id s"
  define fd where "fd = first_free (fd_table s)"
  define tbl where "tbl = reserve_slot (fd_table s) fd"
  have fd: "fd < length tbl" "tbl ! fd = Fd_reserved"
    using first_free_le [of "fd_table s"]
    by (auto simp: tbl_def fd_def reserve_slot_def nth_append)
  note defs = pipeline_defs heap_update_Some heap_free_Some Let_def cptr_def [symmetric]
    fd_def [symmetric] tbl_def [symmetric]
  consider (bad_arg) "len \<noteq> sizeof_priv e \<or> cptr = NULL"
    | (no_mem) "len = sizeof_priv e" "cptr \<noteq> NULL" "kzalloc_fails e"
    | (dangling) "len = sizeof_priv e" "cptr \<noteq> NULL" "\<not> kzalloc_fails e"
        "heap_get (contexts s) cptr = None"
    | (live) ctx where "len = sizeof_priv e" "cptr \<noteq> NULL" "\<not> kzalloc_fails e"
        "heap_get (contexts s) cptr = Some ctx"
    by (cases "heap_get (contexts s) cptr") auto
  then show ?thesis
  proof cases
    case bad_arg
    then show ?thesis by (auto simp: defs)
  next
    case no_mem
    then show ?thesis by (simp add: defs)
  next
    case dangling
    then show ?thesis by (simp add: defs NULL_def)
  next
    case live
    note base = live
    consider (pt) "sync_pt_create_fails e"
      | (fence) "\<not> sync_pt_create_fails e" "sync_fence_create_fails e"
      | (fd) "\<not> sync_pt_create_fails e" "\<not> sync_fence_create_fails e"
          "get_unused_fd_fails e"
      | (copy) "\<not> sync_pt_create_fails e" "\<not> sync_fence_create_fails e"
          "\<not> get_unused_fd_fails e" "copy_to_user_left e \<noteq> 0"
      | (event) "\<not> sync_pt_create_fails e" "\<not> sync_fence_create_fails e"
          "\<not> get_unused_fd_fails e" "copy_to_user_left e = 0" "kgsl_add_event_ret e \<noteq> 0"
      | (ok) "\<not> sync_pt_create_fails e" "\<not> sync_fence_create_fails e"
          "\<not> get_unused_fd_fails e" "copy_to_user_left e = 0" "kgsl_add_event_ret e = 0"
      by blast
    then show ?thesis
    proof cases
      case pt
      with base show ?thesis by (simp add: defs NULL_def)
    next
      case fence
      with base show ?thesis by (simp add: defs NULL_def)
    next
      case fd
      with base show ?thesis by (simp add: defs NULL_def EMFILE_def)
    next
      case copy
      with base fd show ?thesis by (simp add: defs NULL_def)
    next
      case event
      with base fd show ?thesis by (simp add: defs NULL_def)
    next
      case ok
      with base fd show ?thesis by (simp add: defs NULL_def)
    qed
  qed
qed

lemmas concrete_defs = all_succeed_def kernel0_def kernel_exported_def
  kgsl_find_context_def reserve_slot_def NULL_def heap_get_def
  EINVAL_def ENOMEM_def EFAULT_def

subsection \<open>Release accounting of the pipeline\<close>

text \<open>The pipeline returns whenever the context table points to live contexts.\<close>

lemma pipeline_returns:
  assumes "kgsl_find_context owner context_id s = NULL
           \<or> heap_get (contexts s) (kgsl_find_context owner context_id s) \<noteq> None"
  shows "\<exists>ret s'. kgsl_add_fence_event e device context_id timestamp data len owner s
                    = Some (ret, s')"
  using assms by (auto simp: pipeline_outcome Let_def split: option.splits)

text \<open>
  The two readings of \<^verbatim>\<open>sync_fence_install\<close>, in general. When the installation hands the
  caller's reference to the descriptor table, every failure after it drops the one
  reference taken twice. When the installation takes a reference of its own, every
  success leaves the fence with two references, of which closing the descriptor drops
  one: the fence and its Wait Point stay allocated.
\<close>

lemma late_failure_over_drop:
  assumes "len = sizeof_priv e"
    and "kgsl_find_context owner context_id s \<noteq> NULL"
    and "heap_get (contexts s) (kgsl_find_context owner context_id s) = Some ctx"
    and "\<not> kzalloc_fails e" and "\<not> sync_pt_create_fails e"
    and "\<not> sync_fence_create_fails e" and "\<not> get_unused_fd_fails e"
    and "copy_to_user_left e \<noteq> 0 \<or> kgsl_add_event_ret e \<noteq> 0"
    and "\<not> install_takes_ref e"
  shows "release_summary s
           (kgsl_add_fence_event e device context_id timestamp data len owner s)
         = Some (if copy_to_user_left e \<noteq> 0 then - EFAULT else kgsl_add_event_ret e,
                 1, 1, 1, 2)"
  using assms
  by (auto simp: pipeline_outcome Let_def release_summary_def new_events_def count_defs)

lemma success_keeps_creation_reference:
  assumes "len = sizeof_priv e"
    and "kgsl_find_context owner context_id s \<noteq> NULL"
    and "heap_get (contexts s) (kgsl_find_context owner context_id s) = Some ctx"
    and "\<not> kzalloc_fails e" and "\<not> sync_pt_create_fails e"
    and "\<not> sync_fence_create_fails e" and "\<not> get_unused_fd_fails e"
    and "copy_to_user_left e = 0" and "kgsl_add_event_ret e = 0"
    and "install_takes_ref e"
  shows "\<exists>s' s''. kgsl_add_fence_event e device context_id timestamp data len owner s
                     = Some (0, s')
           \<and> close_descriptor (int (first_free (fd_table s))) s' = Some s''
           \<and> heap_get (fences s'') (Suc (length (fences s)))
               = Some \<lparr>fence_refs = 1, fence_pt = Suc (length (sync_pts s))\<rparr>
           \<and> heap_get (sync_pts s'') (Suc (length (sync_pts s)))
               = Some \<lparr>pt_parent = ctx_timeline ctx, pt_timestamp = timestamp\<rparr>"
proof -
  have "first_free (fd_table s) < length (reserve_slot (fd_table s) (first_free (fd_table s)))"
    using first_free_le [of "fd_table s"] by (auto simp: reserve_slot_def)
  with assms show ?thesis
    by (simp add: pipeline_outcome Let_def close_descriptor_def sync_fence_put_def
          heap_update_Some log_event_def)
qed

text \<open>
  C1. The claim asks that on every path each acquired resource is released exactly
  once: the fence's reference dropped as often as it was taken, nothing released twice
  and nothing leaked. The code does not achieve that under either reading of
  \<^verbatim>\<open>sync_fence_install\<close>. If the installation hands the caller's reference to the
  descriptor table, a call whose \<^verbatim>\<open>copy_to_user\<close> or \<^verbatim>\<open>kgsl_add_event\<close> fails returns
  with one Wait Point allocated and released, but with one fence reference taken and
  two dropped. If the installation takes a reference of its own, the successful call
  leaves the fence with two references; after the caller has closed the descriptor and
  the completion callback has run, the fence still holds one reference and its Wait
  Point is still allocated.
\<close>

theorem pipeline_reference_imbalance:
  "release_summary kernel0
     (kgsl_add_fence_event (all_succeed\<lparr>install_takes_ref := False, copy_to_user_left := 4\<rparr>)
        0 7 9 100 4 1 kernel0)
     = Some (- EFAULT, 1, 1, 1, 2)
   \<and> release_summary kernel0
       (kgsl_add_fence_event
          (all_succeed\<lparr>install_takes_ref := False, kgsl_add_event_ret := - EINVAL\<rparr>)
          0 7 9 100 4 1 kernel0)
       = Some (- EINVAL, 1, 1, 1, 2)
   \<and> kgsl_add_fence_event all_succeed 0 7 9 100 4 1 kernel0 = Some (0, kernel_exported)
   \<and> close_descriptor 3 kernel_exported = Some kernel_closed
   \<and> kgsl_fence_event_cb 0 1 9 kernel_closed = Some kernel_retired
   \<and> heap_get (fences kernel_retired) 1 = Some \<lparr>fence_refs = 1, fence_pt = 2\<rparr>
   \<and> heap_get (sync_pts kernel_retired) 2 = Some \<lparr>pt_parent = 1, pt_timestamp = 9\<rparr>
   \<and> fd_table kernel_retired = [Fd_reserved, Fd_reserved, Fd_reserved, Fd_free]"
proof -
  have handed_over_copy:
    "release_summary kernel0
       (kgsl_add_fence_event (all_succeed\<lparr>install_takes_ref := False, copy_to_user_left := 4\<rparr>)
          0 7 9 100 4 1 kernel0)
       = Some (- EFAULT, 1, 1, 1, 2)"
    by (simp add: pipeline_outcome Let_def concrete_defs release_summary_def new_events_def
          count_defs)
  have handed_over_event:
    "release_summary kernel0
       (kgsl_add_fence_event
          (all_succeed\<lparr>install_takes_ref := False, kgsl_add_event_ret := - EINVAL\<rparr>)
          0 7 9 100 4 1 kernel0)
       = Some (- EINVAL, 1, 1, 1, 2)"
    by (simp add: pipeline_outcome Let_def concrete_defs release_summary_def new_events_def
          count_defs)
  have exported:
    "kgsl_add_fence_event all_succeed 0 7 9 100 4 1 kernel0 = Some (0, kernel_exported)"
    by (simp add: pipeline_outcome Let_def concrete_defs)
  have closed: "close_descriptor 3 kernel_exported = Some kernel_closed"
    by (simp add: close_descriptor_def sync_fence_put_def heap_update_def heap_get_def
          log_event_def kernel_closed_def kernel_exported_def kernel0_def)
  have retired: "kgsl_fence_event_cb 0 1 9 kernel_closed = Some kernel_retired"
    by (simp add: kgsl_fence_event_cb_def kgsl_sync_timeline_signal_def
          sync_timeline_signal_def kfree_def heap_update_def heap_free_def heap_get_def
          log_event_def NULL_def kernel_retired_def kernel_closed_def kernel_exported_def
          kernel0_def)
  have left:
    "heap_get (fences kernel_retired) 1 = Some \<lparr>fence_refs = 1, fence_pt = 2\<rparr>"
    "heap_get (sync_pts kernel_retired) 2 = Some \<lparr>pt_parent = 1, pt_timestamp = 9\<rparr>"
    "fd_table kernel_retired = [Fd_reserved, Fd_reserved, Fd_reserved, Fd_free]"
    by (simp_all add: heap_get_def kernel_retired_def kernel_closed_def kernel_exported_def
          kernel0_def)
  from handed_over_copy handed_over_event exported closed retired left show ?thesis
    by blast
qed

subsection \<open>Timelines and wait points\<close>

lemma signal_step:
  assumes "last_retired s tml = Some old"
  shows "\<exists>s'. kgsl_sync_timeline_signal tml t s = Some s' \<and> last_retired s' tml = Some t
           \<and> sync_pts s' = sync_pts s"
proof -
  from assms obtain k where k: "heap_get (timelines s) tml = Some k"
    by (auto simp: last_retired_def)
  then have range: "0 < tml" "tml \<le> length (timelines s)"
    by (auto simp: heap_get_def split: if_splits)
  show ?thesis
    using k range
    by (simp add: kgsl_sync_timeline_signal_def heap_update_Some sync_timeline_signal_def
          log_event_def last_retired_def heap_get_def)
qed

lemma signal_all_last:
  assumes "last_retired s tml = Some old"
  shows "\<exists>s'. signal_all tml ts s = Some s' \<and> last_retired s' tml = Some (last (old # ts))
           \<and> sync_pts s' = sync_pts s"
  using assms
proof (induction ts arbitrary: s old)
  case Nil
  then show ?case by simp
next
  case (Cons t ts)
  from signal_step [OF Cons.prems, of t] obtain s1 where
    s1: "kgsl_sync_timeline_signal tml t s = Some s1" "last_retired s1 tml = Some t"
        "sync_pts s1 = sync_pts s"
    by blast
  from Cons.IH [OF s1(2)] s1 show ?case by auto
qed

lemma signaled_eq:
  assumes "heap_get (sync_pts s) wp = Some kpt"
    and "last_retired s (pt_parent kpt) = Some l"
  shows "signaled s wp = Some (if compare l (pt_timestamp kpt) \<noteq> Before then 1 else 0)"
  using assms
  by (auto simp: signaled_def kgsl_sync_pt_has_signaled_def last_retired_def compare_def)

lemma signaled_after_eq:
  assumes "heap_get (sync_pts s) wp = Some kpt"
    and "last_retired s (pt_parent kpt) = Some old"
  shows "signaled_after (pt_parent kpt) ts wp s =
           Some (if compare (last (old # ts)) (pt_timestamp kpt) \<noteq> Before then 1 else 0)"
proof -
  from signal_all_last [OF assms(2), of ts] obtain s' where
    s': "signal_all (pt_parent kpt) ts s = Some s'"
        "last_retired s' (pt_parent kpt) = Some (last (old # ts))" "sync_pts s' = sync_pts s"
    by blast
  with assms(1) have "heap_get (sync_pts s') wp = Some kpt" by simp
  from signaled_eq [OF this s'(2)] s'(1) show ?thesis
    by (simp add: signaled_after_def)
qed

lemma signaled_frame:
  assumes "timelines s' = timelines s"
    and "heap_get (sync_pts s') wp = heap_get (sync_pts s) wp"
  shows "signaled s' wp = signaled s wp"
  using assms
  by (cases "heap_get (sync_pts s) wp")
     (auto simp: signaled_def kgsl_sync_pt_has_signaled_def Let_def
           split: Option.bind_split)

lemma signaled_same_target:
  assumes "heap_get (sync_pts s) a = Some kpt" and "heap_get (sync_pts s) b = Some kpt"
  shows "signaled s a = signaled s b"
  using assms by (simp add: signaled_def kgsl_sync_pt_has_signaled_def)

lemma signal_keeps_pts:
  "kgsl_sync_timeline_signal tml t s = Some s' \<Longrightarrow> sync_pts s' = sync_pts s"
  by (auto simp: kgsl_sync_timeline_signal_def sync_timeline_signal_def log_event_def
      split: Option.bind_splits)

lemma signal_all_keeps_pts:
  "signal_all tml ts s = Some s' \<Longrightarrow> sync_pts s' = sync_pts s"
proof (induction ts arbitrary: s)
  case Nil
  then show ?case by simp
next
  case (Cons t ts)
  then obtain s1 where "kgsl_sync_timeline_signal tml t s = Some s1"
    "signal_all tml ts s1 = Some s'"
    by (auto split: Option.bind_splits)
  with Cons.IH [of s1] signal_keeps_pts [of tml t s s1] show ?case by simp
qed

text \<open>
  The completion callback advances the timeline of its context to the retired timestamp
  and frees its private state.
\<close>

lemma callback_advances:
  assumes "heap_get (privs s) priv = Some ev"
    and "heap_get (contexts s) (ev_context ev) = Some ctx"
    and "last_retired s (ctx_timeline ctx) = Some old"
    and "priv \<noteq> NULL"
  shows "\<exists>s'. kgsl_fence_event_cb device priv timestamp s = Some s'
           \<and> last_retired s' (ctx_timeline ctx) = Some timestamp
           \<and> heap_get (privs s') priv = None"
proof -
  from assms(3) obtain k where k: "heap_get (timelines s) (ctx_timeline ctx) = Some k"
    by (auto simp: last_retired_def)
  then have range: "0 < ctx_timeline ctx" "ctx_timeline ctx \<le> length (timelines s)"
    by (auto simp: heap_get_def split: if_splits)
  from assms(1) have prange: "0 < priv" "priv \<le> length (privs s)"
    by (auto simp: heap_get_def split: if_splits)
  show ?thesis
    using assms k range prange
    by (simp add: kgsl_fence_event_cb_def kgsl_sync_timeline_signal_def heap_update_Some
          sync_timeline_signal_def log_event_def kfree_def heap_free_Some last_retired_def)
       (simp add: heap_get_def)
qed

text \<open>
  C3. For a Wait Point bound to a live timeline, \<^verbatim>\<open>kgsl_sync_pt_has_signaled\<close> returns 1
  if and only if the comparison of the timeline's \<open>last_retired\<close> with the Wait Point's
  target timestamp is not \<open>Before\<close>, that is if and only if \<^verbatim>\<open>timestamp_cmp\<close> of the two
  is at least 0, and 0 otherwise; the state it returns is the state it was given.
\<close>

theorem has_signaled_spec:
  assumes "heap_get (sync_pts s) wp = Some kpt"
    and "heap_get (timelines s) (pt_parent kpt) = Some ktimeline"
  shows "kgsl_sync_pt_has_signaled wp s =
           Some (if compare (last_timestamp ktimeline) (pt_timestamp kpt) \<noteq> Before
                 then 1 else 0, s)
         \<and> (compare (last_timestamp ktimeline) (pt_timestamp kpt) \<noteq> Before
             \<longleftrightarrow> timestamp_cmp (last_timestamp ktimeline) (pt_timestamp kpt) \<ge> 0)"
  using assms by (simp add: kgsl_sync_pt_has_signaled_def compare_def)

theorem has_signaled_spec_witness:
  "heap_get (sync_pts kernel0) 1 = Some \<lparr>pt_parent = 1, pt_timestamp = 5\<rparr>
   \<and> heap_get (timelines kernel0) 1 = Some \<lparr>last_timestamp = 0\<rparr>
   \<and> kgsl_sync_pt_has_signaled 1 kernel0 = Some (0, kernel0)
   \<and> compare 0 5 = Before"
proof -
  have wp: "heap_get (sync_pts kernel0) 1 = Some \<lparr>pt_parent = 1, pt_timestamp = 5\<rparr>"
    by (simp add: kernel0_def heap_get_def)
  have tl: "heap_get (timelines kernel0) (pt_parent \<lparr>pt_parent = 1, pt_timestamp = 5\<rparr>)
              = Some \<lparr>last_timestamp = 0\<rparr>"
    by (simp add: kernel0_def heap_get_def)
  have cmp: "compare 0 5 = Before"
    by (simp add: compare_def timestamp_cmp_def)
  show ?thesis
    using has_signaled_spec [OF wp tl] wp tl cmp by simp
qed

text \<open>
  C2, as amended. An advance sets \<open>last_retired\<close> to exactly the timestamp it is given,
  whatever the old value. Over a sequence of advances the counter therefore never moves
  backward under the comparator if and only if no timestamp passed is before the one
  passed previously (for the first advance: before the initial \<open>last_retired\<close>).
\<close>

theorem advance_overwrites:
  assumes "last_retired s tml = Some old"
  shows "retired_after tml [t] s = Some t
       \<and> never_decreased tml ts s = forward old ts"
proof -
  have seq: "never_decreased tml ts s = forward old ts"
    using assms
  proof (induction ts arbitrary: s old)
    case Nil
    then show ?case by simp
  next
    case (Cons u us)
    from signal_step [OF Cons.prems, of u] obtain s1 where
      s1: "kgsl_sync_timeline_signal tml u s = Some s1" "last_retired s1 tml = Some u"
      by blast
    from Cons.IH [OF s1(2)] s1 Cons.prems show ?case by simp
  qed
  from signal_step [OF assms, of t] have "retired_after tml [t] s = Some t"
    by (auto simp: retired_after_def)
  with seq show ?thesis by simp
qed

theorem advance_overwrites_witness:
  "last_retired kernel0 1 = Some 0
   \<and> retired_after 1 [5] kernel0 = Some 5
   \<and> never_decreased 1 [5, 9] kernel0"
proof -
  have l: "last_retired kernel0 1 = Some 0"
    by (simp add: last_retired_def kernel0_def heap_get_def)
  have f: "forward 0 [5, 9]"
    by (simp add: compare_def timestamp_cmp_def)
  show ?thesis
    using advance_overwrites [OF l, of 5 "[5, 9]"] l f by simp
qed

text \<open>
  C2 as stated fails: after the advances to 5 and then to 3 the counter holds 3, which is
  before the 5 it held.
\<close>

theorem advance_backward_counterexample:
  "retired_after 1 [5] kernel0 = Some 5 \<and> retired_after 1 [5, 3] kernel0 = Some 3
   \<and> compare 3 5 = Before"
  by (simp add: retired_after_def kgsl_sync_timeline_signal_def heap_update_def heap_get_def
        sync_timeline_signal_def log_event_def last_retired_def kernel0_def compare_def
        timestamp_cmp_def)

text \<open>
  C4, as amended. The answer of the signaled query after a sequence of advances follows
  the latest advance only. While the initial \<open>last_retired\<close> and every timestamp
  advanced to are before the target, the Wait Point is not signaled. After an advance to
  a timestamp that is not before the target it is signaled, and it stays signaled under
  the advances that follow as long as their timestamps are not before the target either.
\<close>

theorem signaled_follows_last_advance:
  assumes "heap_get (sync_pts s) wp = Some kpt"
    and "last_retired s (pt_parent kpt) = Some old"
  shows "(compare old (pt_timestamp kpt) = Before
           \<and> (\<forall>u \<in> set ts. compare u (pt_timestamp kpt) = Before)
          \<longrightarrow> signaled_after (pt_parent kpt) ts wp s = Some 0)
       \<and> (compare t (pt_timestamp kpt) \<noteq> Before
           \<and> (\<forall>u \<in> set us. compare u (pt_timestamp kpt) \<noteq> Before)
          \<longrightarrow> signaled_after (pt_parent kpt) (ts @ t # us) wp s = Some 1)"
proof -
  have a: "compare (last (old # ts)) (pt_timestamp kpt) = Before"
    if "compare old (pt_timestamp kpt) = Before"
       "\<forall>u \<in> set ts. compare u (pt_timestamp kpt) = Before"
    using that by (cases ts rule: rev_cases) auto
  have b: "compare (last (old # ts @ t # us)) (pt_timestamp kpt) \<noteq> Before"
    if "compare t (pt_timestamp kpt) \<noteq> Before"
       "\<forall>u \<in> set us. compare u (pt_timestamp kpt) \<noteq> Before"
    using that by (cases us rule: rev_cases) auto
  show ?thesis
    using a b by (auto simp: signaled_after_eq [OF assms] simp del: last.simps)
qed

theorem signaled_follows_last_advance_witness:
  "heap_get (sync_pts kernel0) 1 = Some \<lparr>pt_parent = 1, pt_timestamp = 5\<rparr>
   \<and> last_retired kernel0 1 = Some 0
   \<and> compare 0 5 = Before \<and> compare 3 5 = Before \<and> compare 4 5 = Before
   \<and> signaled_after 1 [3, 4] 1 kernel0 = Some 0
   \<and> compare 5 5 \<noteq> Before \<and> compare 9 5 \<noteq> Before
   \<and> signaled_after 1 [3, 4, 5, 9] 1 kernel0 = Some 1"
proof -
  let ?kpt = "\<lparr>pt_parent = 1, pt_timestamp = 5\<rparr>"
  have wp: "heap_get (sync_pts kernel0) 1 = Some ?kpt"
    by (simp add: kernel0_def heap_get_def)
  have old: "last_retired kernel0 (pt_parent ?kpt) = Some 0"
    by (simp add: last_retired_def kernel0_def heap_get_def)
  have cmp: "compare 0 5 = Before" "compare 3 5 = Before" "compare 4 5 = Before"
    "compare 5 5 \<noteq> Before" "compare 9 5 \<noteq> Before"
    by (simp_all add: compare_def timestamp_cmp_def)
  show ?thesis
    using signaled_follows_last_advance [OF wp old, of "[3, 4]" 5 "[9]"] wp old cmp
    by simp
qed

text \<open>
  C4 as stated fails: the Wait Point for timestamp 5 is signaled by the advance to 5 and
  not signaled any more after a further advance to 3.
\<close>

theorem unsignal_counterexample:
  "compare 5 5 \<noteq> Before \<and> signaled_after 1 [] 1 kernel0 = Some 0
   \<and> signaled_after 1 [5] 1 kernel0 = Some 1
   \<and> signaled_after 1 [5, 3] 1 kernel0 = Some 0"
  by (simp add: signaled_after_def signaled_def kgsl_sync_pt_has_signaled_def
        kgsl_sync_timeline_signal_def heap_update_def heap_get_def
        sync_timeline_signal_def log_event_def kernel0_def compare_def timestamp_cmp_def)

text \<open>
  C8. On a live context \<^verbatim>\<open>kgsl_sync_timeline_create\<close> returns 0 and leaves the context
  with a new timeline whose \<open>last_retired\<close> is 0 when the framework creates the timeline;
  when the framework fails it returns \<^verbatim>\<open>-EINVAL\<close>, the context's timeline pointer is
  \<^verbatim>\<open>NULL\<close> and no timeline has been added.
\<close>

theorem timeline_create_spec:
  assumes "heap_get (contexts s) c = Some ctx"
  shows "(sync_timeline_create_fails e \<longrightarrow>
           (\<exists>s'. kgsl_sync_timeline_create e c s = Some (- EINVAL, s')
              \<and> map_option ctx_timeline (heap_get (contexts s') c) = Some NULL
              \<and> timelines s' = timelines s))
       \<and> (\<not> sync_timeline_create_fails e \<longrightarrow>
           (\<exists>s' tml. kgsl_sync_timeline_create e c s = Some (0, s')
              \<and> map_option ctx_timeline (heap_get (contexts s') c) = Some tml
              \<and> tml \<noteq> NULL \<and> heap_get (timelines s) tml = None
              \<and> last_retired s' tml = Some 0))"
proof -
  from assms have range: "0 < c" "c \<le> length (contexts s)"
    by (auto simp: heap_get_def split: if_splits)
  show ?thesis
    using assms range
    by (simp add: kgsl_sync_timeline_create_def sync_timeline_create_def heap_alloc_def
          heap_update_Some Let_def NULL_def last_retired_def)
       (simp add: heap_get_def)
qed

theorem timeline_create_spec_witness:
  "heap_get (contexts kernel0) 1 = Some \<lparr>ctx_timeline = 1\<rparr>
   \<and> (\<exists>s' tml. kgsl_sync_timeline_create all_succeed 1 kernel0 = Some (0, s')
          \<and> map_option ctx_timeline (heap_get (contexts s') 1) = Some tml
          \<and> tml \<noteq> NULL \<and> last_retired s' tml = Some 0)
   \<and> (\<exists>s'. kgsl_sync_timeline_create (all_succeed\<lparr>sync_timeline_create_fails := True\<rparr>)
                1 kernel0 = Some (- EINVAL, s')
          \<and> map_option ctx_timeline (heap_get (contexts s') 1) = Some NULL)"
proof -
  have live: "heap_get (contexts kernel0) 1 = Some \<lparr>ctx_timeline = 1\<rparr>"
    by (simp add: kernel0_def heap_get_def)
  have ok: "\<not> sync_timeline_create_fails all_succeed"
    and bad: "sync_timeline_create_fails (all_succeed\<lparr>sync_timeline_create_fails := True\<rparr>)"
    by (simp_all add: all_succeed_def)
  show ?thesis
    using timeline_create_spec [OF live, of all_succeed]
      timeline_create_spec [OF live, of "all_succeed\<lparr>sync_timeline_create_fails := True\<rparr>"]
      live ok bad
    by blast
qed

text \<open>
  C9. \<^verbatim>\<open>kgsl_sync_pt_dup\<close> of a live Wait Point returns \<^verbatim>\<open>NULL\<close> and changes nothing
  exactly when the framework's allocation fails. Otherwise it returns a new Wait Point,
  at an address of its own, with the timeline and the target timestamp of the original;
  after every sequence of advances of any timeline the signaled query answers the same
  for the two.
\<close>

theorem dup_same_behaviour:
  assumes "heap_get (sync_pts s) wp = Some kpt"
  shows "(sync_pt_create_fails e \<longrightarrow> kgsl_sync_pt_dup e wp s = Some (NULL, s))
       \<and> (\<not> sync_pt_create_fails e \<longrightarrow>
           (\<exists>d s'. kgsl_sync_pt_dup e wp s = Some (d, s') \<and> d \<noteq> NULL \<and> d \<noteq> wp
              \<and> heap_get (sync_pts s) d = None
              \<and> heap_get (sync_pts s') d = Some kpt \<and> heap_get (sync_pts s') wp = Some kpt
              \<and> timelines s' = timelines s
              \<and> (\<forall>tml ts. signaled_after tml ts d s' = signaled_after tml ts wp s')))"
proof -
  from assms have range: "0 < wp" "wp \<le> length (sync_pts s)"
    by (auto simp: heap_get_def split: if_splits)
  let ?d = "Suc (length (sync_pts s))"
  let ?s' = "s\<lparr>sync_pts := sync_pts s @ [Some kpt], trace := trace s @ [Pt_alloc ?d]\<rparr>"
  have run: "kgsl_sync_pt_dup e wp s = Some (?d, ?s')" if "\<not> sync_pt_create_fails e"
    using that assms
    by (simp add: kgsl_sync_pt_dup_def kgsl_sync_pt_create_def sync_pt_create_def
          heap_alloc_def heap_update_Some NULL_def log_event_def)
  have d: "heap_get (sync_pts ?s') ?d = Some kpt" by simp
  have w: "heap_get (sync_pts ?s') wp = Some kpt"
    using assms by (simp add: heap_get_append_live)
  have same: "signaled_after tml ts ?d ?s' = signaled_after tml ts wp ?s'" for tml ts
  proof (cases "signal_all tml ts ?s'")
    case None
    then show ?thesis by (simp add: signaled_after_def)
  next
    case (Some s'')
    from signal_all_keeps_pts [OF Some] d w
    have "heap_get (sync_pts s'') ?d = Some kpt" "heap_get (sync_pts s'') wp = Some kpt"
      by simp_all
    from signaled_same_target [OF this] Some show ?thesis
      by (simp add: signaled_after_def)
  qed
  have fail: "kgsl_sync_pt_dup e wp s = Some (NULL, s)" if "sync_pt_create_fails e"
    using that assms
    by (simp add: kgsl_sync_pt_dup_def kgsl_sync_pt_create_def sync_pt_create_def)
  have "?d \<noteq> NULL" "?d \<noteq> wp" "heap_get (sync_pts s) ?d = None" "timelines ?s' = timelines s"
    using range by (simp_all add: NULL_def)
  with run d w same fail show ?thesis by blast
qed

theorem dup_same_behaviour_witness:
  "heap_get (sync_pts kernel0) 1 = Some \<lparr>pt_parent = 1, pt_timestamp = 5\<rparr>
   \<and> kgsl_sync_pt_dup (all_succeed\<lparr>sync_pt_create_fails := True\<rparr>) 1 kernel0
       = Some (NULL, kernel0)
   \<and> (\<exists>d s'. kgsl_sync_pt_dup all_succeed 1 kernel0 = Some (d, s') \<and> d \<noteq> NULL \<and> d \<noteq> 1
          \<and> signaled_after 1 [5] d s' = signaled_after 1 [5] 1 s')"
proof -
  have wp: "heap_get (sync_pts kernel0) 1 = Some \<lparr>pt_parent = 1, pt_timestamp = 5\<rparr>"
    by (simp add: kernel0_def heap_get_def)
  have ok: "\<not> sync_pt_create_fails all_succeed"
    and bad: "sync_pt_create_fails (all_succeed\<lparr>sync_pt_create_fails := True\<rparr>)"
    by (simp_all add: all_succeed_def)
  show ?thesis
    using dup_same_behaviour [OF wp, of all_succeed]
      dup_same_behaviour [OF wp, of "all_succeed\<lparr>sync_pt_create_fails := True\<rparr>"]
      wp ok bad
    by blast
qed

subsection \<open>The failure paths of the pipeline\<close>

text \<open>
  C5. For a context id that the owner's context table does not hold,
  \<^verbatim>\<open>kgsl_add_fence_event\<close> returns \<^verbatim>\<open>-EINVAL\<close> and the whole state, heaps, descriptor
  table, registered events and resource events included, is the one it was called in.
\<close>

theorem unknown_context_rejected:
  assumes "map_of (context_table s) (owner, context_id) = None"
  shows "kgsl_add_fence_event e device context_id timestamp data len owner s = Some (- EINVAL, s)"
  using assms by (simp add: kgsl_add_fence_event_def kgsl_find_context_def)

theorem unknown_context_rejected_witness:
  "map_of (context_table kernel0) (1, 8) = None
   \<and> kgsl_add_fence_event all_succeed 0 8 9 100 4 1 kernel0 = Some (- EINVAL, kernel0)"
proof -
  have absent: "map_of (context_table kernel0) (1, 8) = None"
    by (simp add: kernel0_def)
  show ?thesis
    using unknown_context_rejected [OF absent] absent by simp
qed

text \<open>
  C6. When every step up to the creation of the Wait Point succeeds and
  \<^verbatim>\<open>sync_fence_create\<close> returns \<^verbatim>\<open>NULL\<close>, the pipeline returns \<^verbatim>\<open>-ENOMEM\<close>; it has
  destroyed the Wait Point explicitly and freed the callback state, each once, and it has
  created no fence, reserved no descriptor, registered no event and written nothing to
  the caller.
\<close>

theorem wrap_failure_unwinds:
  assumes "len = sizeof_priv e"
    and "kgsl_find_context owner context_id s \<noteq> NULL"
    and "heap_get (contexts s) (kgsl_find_context owner context_id s) = Some ctx"
    and "\<not> kzalloc_fails e" and "\<not> sync_pt_create_fails e" and "sync_fence_create_fails e"
  shows "\<exists>s'. kgsl_add_fence_event e device context_id timestamp data len owner s
                 = Some (- ENOMEM, s')
     \<and> new_events s s' =
         [Priv_alloc (Suc (length (privs s))), Pt_alloc (Suc (length (sync_pts s))),
          Pt_free (Suc (length (sync_pts s))), Priv_free (Suc (length (privs s)))]
     \<and> heap_get (sync_pts s') (Suc (length (sync_pts s))) = None
     \<and> heap_get (privs s') (Suc (length (privs s))) = None
     \<and> fences s' = fences s \<and> fd_table s' = fd_table s
     \<and> registered s' = registered s \<and> user_mem s' = user_mem s"
  using assms by (simp add: pipeline_outcome Let_def new_events_def)

theorem wrap_failure_unwinds_witness:
  "kgsl_find_context 1 7 kernel0 = 1
   \<and> heap_get (contexts kernel0) 1 = Some \<lparr>ctx_timeline = 1\<rparr>
   \<and> (\<exists>s'. kgsl_add_fence_event (all_succeed\<lparr>sync_fence_create_fails := True\<rparr>)
               0 7 9 100 4 1 kernel0 = Some (- ENOMEM, s')
          \<and> new_events kernel0 s' = [Priv_alloc 1, Pt_alloc 2, Pt_free 2, Priv_free 1]
          \<and> fd_table s' = fd_table kernel0 \<and> registered s' = registered kernel0)"
proof -
  let ?e = "all_succeed\<lparr>sync_fence_create_fails := True\<rparr>"
  have found: "kgsl_find_context 1 7 kernel0 = 1"
    by (simp add: kgsl_find_context_def kernel0_def)
  have live: "heap_get (contexts kernel0) 1 = Some \<lparr>ctx_timeline = 1\<rparr>"
    by (simp add: kernel0_def heap_get_def)
  have h: "4 = sizeof_priv ?e" "kgsl_find_context 1 7 kernel0 \<noteq> NULL"
    "heap_get (contexts kernel0) (kgsl_find_context 1 7 kernel0) = Some \<lparr>ctx_timeline = 1\<rparr>"
    "\<not> kzalloc_fails ?e" "\<not> sync_pt_create_fails ?e" "sync_fence_create_fails ?e"
    using found live by (simp_all add: all_succeed_def NULL_def)
  have sizes: "length (privs kernel0) = 0" "length (sync_pts kernel0) = 1"
    by (simp_all add: kernel0_def)
  from wrap_failure_unwinds [OF h, of 0 9 100] obtain s' where
    "kgsl_add_fence_event ?e 0 7 9 100 4 1 kernel0 = Some (- ENOMEM, s')"
    "new_events kernel0 s' = [Priv_alloc 1, Pt_alloc 2, Pt_free 2, Priv_free 1]"
    "fd_table s' = fd_table kernel0" "registered s' = registered kernel0"
    by (auto simp: sizes)
  with found live show ?thesis by blast
qed




text \<open>
  C10. Whatever \<^verbatim>\<open>kgsl_add_fence_event\<close> returns, it leaves every timeline as it was, the
  counter \<open>last_retired\<close> included, and the signaled query of every Wait Point that
  existed before the call answers as before.
\<close>

theorem pipeline_keeps_timelines:
  assumes "kgsl_add_fence_event e device context_id timestamp data len owner s = Some (ret, s')"
  shows "timelines s' = timelines s
       \<and> (\<forall>wp kpt. heap_get (sync_pts s) wp = Some kpt \<longrightarrow> signaled s' wp = signaled s wp)"
proof -
  have tl: "timelines s' = timelines s"
    using assms
    by (auto simp: pipeline_outcome Let_def split: if_splits option.splits)
  have pts: "\<exists>x. sync_pts s' = sync_pts s \<or> sync_pts s' = sync_pts s @ [x]"
    using assms
    by (auto simp: pipeline_outcome Let_def split: if_splits option.splits)
  have "signaled s' wp = signaled s wp" if "heap_get (sync_pts s) wp = Some kpt" for wp kpt
  proof -
    from pts that have "heap_get (sync_pts s') wp = heap_get (sync_pts s) wp"
      by (auto simp: heap_get_append_live)
    with tl show ?thesis by (rule signaled_frame)
  qed
  with tl show ?thesis by blast
qed

theorem pipeline_keeps_timelines_witness:
  "kgsl_add_fence_event all_succeed 0 7 9 100 4 1 kernel0 = Some (0, kernel_exported)
   \<and> heap_get (sync_pts kernel0) 1 = Some \<lparr>pt_parent = 1, pt_timestamp = 5\<rparr>
   \<and> timelines kernel_exported = timelines kernel0
   \<and> signaled kernel_exported 1 = signaled kernel0 1"
proof -
  have exported:
    "kgsl_add_fence_event all_succeed 0 7 9 100 4 1 kernel0 = Some (0, kernel_exported)"
    by (simp add: pipeline_outcome Let_def concrete_defs)
  have wp: "heap_get (sync_pts kernel0) 1 = Some \<lparr>pt_parent = 1, pt_timestamp = 5\<rparr>"
    by (simp add: kernel0_def heap_get_def)
  show ?thesis
    using pipeline_keeps_timelines [OF exported] exported wp by blast
qed

end
